theory Spec2Isabelle
  imports Complex_Main
begin

section \<open>Values, errors and printed output\<close>

text \<open>
  The patch test of \<^verbatim>\<open>HSTB/kluster/modules/patch.py\<close> works on numpy arrays of
  floating point numbers. Rounding is not modelled: a finite float is a real number.
  The missing value of a grid layer (numpy's NaN) is \<open>None\<close>, and arithmetic on grid
  cells propagates it as numpy does.
\<close>

type_synonym npfloat = "real option"

definition isnan :: "npfloat \<Rightarrow> bool" where
  "isnan v = (v = None)"

definition fmul :: "npfloat \<Rightarrow> npfloat \<Rightarrow> npfloat" where
  "fmul a b = (case a of None \<Rightarrow> None | Some x \<Rightarrow> (case b of None \<Rightarrow> None | Some y \<Rightarrow> Some (x * y)))"

definition fsub :: "npfloat \<Rightarrow> npfloat \<Rightarrow> npfloat" where
  "fsub a b = (case a of None \<Rightarrow> None | Some x \<Rightarrow> (case b of None \<Rightarrow> None | Some y \<Rightarrow> Some (x - y)))"

definition fadd :: "npfloat \<Rightarrow> npfloat \<Rightarrow> npfloat" where
  "fadd a b = (case a of None \<Rightarrow> None | Some x \<Rightarrow> (case b of None \<Rightarrow> None | Some y \<Rightarrow> Some (x + y)))"

text \<open>A two-dimensional array is the list of its rows; a matrix likewise.\<close>

type_synonym 'a array2 = "'a list list"
type_synonym matrix = "npfloat list list"

text \<open>
  The exceptions the code can raise. \<open>ValueError\<close> carries the message template and the
  list formatted into it; \<open>NumpyValueError\<close> is the ValueError numpy raises for operands
  whose shapes do not fit or for the minimum of an empty array, \<open>StepError\<close> the failure
  of \<^verbatim>\<open>np.arange\<close> on a zero step, and \<open>External\<close> an exception of a collaborator
  (gridding engine, linear algebra).
\<close>

datatype error =
    ValueError string "string list"
  | TypeError
  | AttributeError
  | IndexError
  | NumpyValueError
  | StepError
  | External string

definition bind_err :: "error + 'a \<Rightarrow> ('a \<Rightarrow> error + 'b) \<Rightarrow> error + 'b" where
  "bind_err m f = (case m of Inl e \<Rightarrow> Inl e | Inr v \<Rightarrow> f v)"

text \<open>
  One entry per \<^verbatim>\<open>print\<close> call: a fixed text, a template with a list of line names
  formatted into it, or a template with a row of numbers formatted into it.
\<close>

datatype out_line =
    Plain string
  | WithKeys string "string list"
  | WithRow string "npfloat list"

section \<open>Collaborators\<close>

text \<open>
  A sounding is (x, y, z). The data source \<^verbatim>\<open>fqpr\<close> is known by the keys of
  \<^verbatim>\<open>fqpr.multibeam.raw_ping[0].multibeam_files\<close>, in dictionary order, and by the
  accepted soundings \<^verbatim>\<open>subset_variables_by_line\<close> returns for a line (x, y and z
  arrays of one length).
\<close>

type_synonym sounding = "real \<times> real \<times> real"

record fqpr =
  raw_ping_multibeam_files :: "string list"
  subset_variables_by_line :: "string \<Rightarrow> sounding list"

text \<open>
  The grid built by bathygrid: its bounds, its resolutions and its named layers
  (\<^verbatim>\<open>get_layers_by_name\<close>).
\<close>

record bgrid =
  grid_min_x :: real
  grid_max_x :: real
  grid_min_y :: real
  grid_max_y :: real
  resolutions :: "real list"
  get_layer :: "string \<Rightarrow> npfloat array2"

text \<open>
  \<^verbatim>\<open>create_grid\<close>, \<^verbatim>\<open>add_points\<close> and \<^verbatim>\<open>grid\<close> of bathygrid, taken together: from the
  points added per line name, in order, to the finished grid. \<^verbatim>\<open>np.linalg.lstsq\<close>
  returns the solution, the residuals, the rank and the singular values.
\<close>

type_synonym gridder = "(string \<times> sounding list) list \<Rightarrow> error + bgrid"
type_synonym lstsq = "matrix \<Rightarrow> matrix \<Rightarrow> error + (matrix \<times> npfloat list \<times> nat \<times> npfloat list)"

text \<open>The default standard uncertainties of \<^verbatim>\<open>HSTB.kluster.kluster_variables\<close>.\<close>

record kluster_variables =
  default_roll_error :: real
  default_pitch_error :: real
  default_heading_error :: real
  default_x_offset_error :: real
  default_y_offset_error :: real

section \<open>The PatchTest object\<close>

record patch_test =
  fqpr :: "fqpr option"
  azimuth :: "real option"
  initial_parameters :: "(string \<times> real) list"
  multibeam_files :: "string list option"
  multibeam_indexes :: "(string \<times> nat \<times> nat) list option"
  points :: "sounding list option"
  min_x :: "real option"
  min_y :: "real option"
  grid :: "bgrid option"
  a_matrix :: "matrix option"
  b_matrix :: "matrix option"
  result :: "matrix option"
  stdout :: "out_line list"

subsection \<open>Construction\<close>

definition default_parameters :: "kluster_variables \<Rightarrow> (string \<times> real) list" where
  "default_parameters kv =
     [(''roll'', 0), (''roll_unc'', default_roll_error kv),
      (''pitch'', 0), (''pitch_unc'', default_pitch_error kv),
      (''heading'', 0), (''heading_unc'', default_heading_error kv),
      (''x_unc'', default_x_offset_error kv),
      (''y_unc'', default_y_offset_error kv), (''h_scale_unc'', 1 / 100)]"

definition missing_keys :: "kluster_variables \<Rightarrow> (string \<times> real) list \<Rightarrow> string list" where
  "missing_keys kv ip = filter (\<lambda>x. x \<notin> set (map fst ip)) (map fst (default_parameters kv))"

definition missing_message :: string where
  "missing_message = ''The following keys are not in the provided parameters dict, they must be included: {}''"

definition fresh :: "fqpr option \<Rightarrow> real option \<Rightarrow> (string \<times> real) list \<Rightarrow> patch_test" where
  "fresh fq az ip =
     \<lparr> fqpr = fq, azimuth = az, initial_parameters = ip,
       multibeam_files = None, multibeam_indexes = None, points = None,
       min_x = None, min_y = None, grid = None,
       a_matrix = None, b_matrix = None, result = None, stdout = [] \<rparr>"

definition init :: "kluster_variables \<Rightarrow> fqpr option \<Rightarrow> real option \<Rightarrow> (string \<times> real) list option
    \<Rightarrow> error + patch_test" where
  "init kv fq az ip_opt =
     (case ip_opt of
        None \<Rightarrow> Inr (fresh fq az (default_parameters kv))
      | Some ip \<Rightarrow>
          (if missing_keys kv ip \<noteq> []
           then Inl (ValueError missing_message (missing_keys kv ip))
           else Inr (fresh fq az ip)))"

subsection \<open>The numpy operations used\<close>

text \<open>
  Arrays are rectangular. The shape of a two-dimensional array is (rows, columns).
  Elementwise operations and boolean-mask indexing need operands of one shape; numpy's
  broadcasting of unequal shapes is not modelled, since \<^verbatim>\<open>get_layers_by_name\<close> returns
  layers of one shape.
\<close>

definition shape2 :: "'a array2 \<Rightarrow> nat \<times> nat" where
  "shape2 a = (case a of [] \<Rightarrow> (0, 0) | r # _ \<Rightarrow> (length a, length r))"

definition not_isnan :: "npfloat array2 \<Rightarrow> bool array2" where
  "not_isnan a = map (map (\<lambda>v. \<not> isnan v)) a"

definition logical_and :: "bool array2 \<Rightarrow> bool array2 \<Rightarrow> error + bool array2" where
  "logical_and a b =
     (if shape2 a = shape2 b then Inr (map2 (map2 (\<lambda>p q. p \<and> q)) a b) else Inl NumpyValueError)"

definition np_any :: "real list \<Rightarrow> bool" where
  "np_any xs = list_ex (\<lambda>v. v \<noteq> 0) xs"

definition np_any2 :: "bool array2 \<Rightarrow> bool" where
  "np_any2 m = list_ex (list_ex (\<lambda>b. b)) m"

text \<open>\<^verbatim>\<open>a[mask]\<close>: the entries of \<open>a\<close> where the mask is true, in row-major order.\<close>

definition mask_index :: "'a array2 \<Rightarrow> bool array2 \<Rightarrow> error + 'a list" where
  "mask_index a m =
     (if shape2 a = shape2 m then Inr (map fst (filter snd (zip (concat a) (concat m))))
      else Inl IndexError)"

definition np_min :: "real list \<Rightarrow> error + real" where
  "np_min xs = (case xs of [] \<Rightarrow> Inl NumpyValueError | v # vs \<Rightarrow> Inr (foldl min v vs))"

definition deg2rad :: "real \<Rightarrow> real" where
  "deg2rad d = d * pi / 180"

definition arange :: "real \<Rightarrow> real \<Rightarrow> real \<Rightarrow> error + real list" where
  "arange start stop step =
     (if step = 0 then Inl StepError
      else Inr (map (\<lambda>k. start + real k * step) [0..<nat \<lceil>(stop - start) / step\<rceil>]))"

text \<open>
  \<^verbatim>\<open>np.meshgrid(xv, yv)\<close> with its default indexing: both results have one row per
  entry of \<open>yv\<close> and one column per entry of \<open>xv\<close>.
\<close>

definition meshgrid :: "real list \<Rightarrow> real list \<Rightarrow> real array2 \<times> real array2" where
  "meshgrid xv yv = (map (\<lambda>y. xv) yv, map (\<lambda>y. map (\<lambda>x. y) xv) yv)"

definition column_stack :: "npfloat list list \<Rightarrow> error + matrix" where
  "column_stack cols =
     (case cols of
        [] \<Rightarrow> Inl NumpyValueError
      | c # cs \<Rightarrow>
          (if list_all (\<lambda>d. length d = length c) cs
           then Inr (map (\<lambda>i. map (\<lambda>d. d ! i) cols) [0..<length c])
           else Inl NumpyValueError))"

definition np_T :: "matrix \<Rightarrow> matrix" where
  "np_T a = (case a of [] \<Rightarrow> [] | r # _ \<Rightarrow> map (\<lambda>j. map (\<lambda>row. row ! j) a) [0..<length r])"

definition fsum :: "npfloat list \<Rightarrow> npfloat" where
  "fsum vs = foldl fadd (Some 0) vs"

definition np_dot :: "matrix \<Rightarrow> matrix \<Rightarrow> error + matrix" where
  "np_dot a b =
     (if list_all (\<lambda>r. length r = length b) a
      then Inr (map (\<lambda>r. map (\<lambda>c. fsum (map2 fmul r c)) (np_T b)) a)
      else Inl NumpyValueError)"

text \<open>\<^verbatim>\<open>pts[a:b]\<close> for indices that are not negative.\<close>

definition py_slice :: "'a list \<Rightarrow> nat \<Rightarrow> nat \<Rightarrow> 'a list" where
  "py_slice xs a b = drop a (take b xs)"

subsection \<open>Point collection and rotation\<close>

text \<open>
  The loop of \<^verbatim>\<open>_generate_rotated_points\<close> over the line names: \<open>final\<close> holds
  \<^verbatim>\<open>finalx\<close>, \<^verbatim>\<open>finaly\<close> and \<^verbatim>\<open>finalz\<close> (\<open>None\<close> before the first line), \<open>indexes\<close> the
  dictionary \<^verbatim>\<open>multibeam_indexes\<close> in insertion order.
\<close>

record collector =
  final :: "(real list \<times> real list \<times> real list) option"
  indexes :: "(string \<times> nat \<times> nat) list"
  curr_point_index :: nat

definition dict_set :: "('k \<times> 'v) list \<Rightarrow> 'k \<Rightarrow> 'v \<Rightarrow> ('k \<times> 'v) list" where
  "dict_set d k v =
     (if k \<in> set (map fst d) then map (\<lambda>(k', v'). if k' = k then (k', v) else (k', v')) d
      else d @ [(k, v)])"

fun collect_lines :: "fqpr \<Rightarrow> string list \<Rightarrow> collector \<Rightarrow> collector" where
  "collect_lines fq [] st = st"
| "collect_lines fq (mfilename # rest) st =
     (let data = subset_variables_by_line fq mfilename;
          x = map fst data;
          y = map (\<lambda>p. fst (snd p)) data;
          z = map (\<lambda>p. snd (snd p)) data;
          idx = dict_set (indexes st) mfilename (curr_point_index st, curr_point_index st + length x);
          fin = (case final st of
                   None \<Rightarrow> (x, y, z)
                 | Some (finalx, finaly, finalz) \<Rightarrow> (finalx @ x, finaly @ y, finalz @ z))
      in collect_lines fq rest
           \<lparr> final = Some fin, indexes = idx, curr_point_index = length x \<rparr>)"

definition rotate_points :: "real \<Rightarrow> real \<Rightarrow> real \<Rightarrow> real \<Rightarrow> sounding list \<Rightarrow> sounding list" where
  "rotate_points cos_az sin_az mn_x mn_y pts =
     map (\<lambda>(x, y, z).
            (mn_x + cos_az * (x - mn_x) - sin_az * (y - mn_y),
             mn_y + sin_az * (x - mn_x) + cos_az * (y - mn_y),
             z)) pts"

definition no_points_message :: string where
  "no_points_message = ''Found no valid points for {}''"

definition generate_rotated_points :: "patch_test \<Rightarrow> error + patch_test" where
  "generate_rotated_points s =
     (case azimuth s of
        None \<Rightarrow> Inl TypeError
      | Some az \<Rightarrow>
          (let ang = az - 90;
               cos_az = cos (deg2rad ang);
               sin_az = sin (deg2rad ang)
           in case fqpr s of
                None \<Rightarrow> Inl AttributeError
              | Some fq \<Rightarrow>
                  (let files = raw_ping_multibeam_files fq;
                       st = collect_lines fq files \<lparr> final = None, indexes = [], curr_point_index = 0 \<rparr>;
                       s1 = s\<lparr> multibeam_files := Some files, multibeam_indexes := Some (indexes st) \<rparr>
                   in case final st of
                        None \<Rightarrow> Inl AttributeError
                      | Some (finalx, finaly, finalz) \<Rightarrow>
                          (if np_any finalx
                           then bind_err (np_min finalx) (\<lambda>mn_x.
                                bind_err (np_min finaly) (\<lambda>mn_y.
                                  Inr (s1\<lparr> points := Some (rotate_points cos_az sin_az mn_x mn_y
                                                             (zip finalx (zip finaly finalz))),
                                          min_x := Some mn_x, min_y := Some mn_y \<rparr>)))
                           else Inr (s1\<lparr> stdout := stdout s1 @ [WithKeys no_points_message files] \<rparr>)))))"

subsection \<open>Gridding\<close>

text \<open>The method \<^verbatim>\<open>_grid\<close>.\<close>

definition grid_points :: "gridder \<Rightarrow> patch_test \<Rightarrow> error + patch_test" where
  "grid_points G s =
     (case points s of
        None \<Rightarrow> Inr s
      | Some pts \<Rightarrow>
          (if length pts > 0
           then (case multibeam_indexes s of
                   None \<Rightarrow> Inl TypeError
                 | Some idx \<Rightarrow>
                     bind_err (G (map (\<lambda>(linename, a, b). (linename, py_slice pts a b)) idx))
                       (\<lambda>g. Inr (s\<lparr> grid := Some g \<rparr>)))
           else Inr s))"

subsection \<open>Design and observation matrices\<close>

definition valid_index_of :: "bgrid \<Rightarrow> string \<Rightarrow> string \<Rightarrow> error + bool array2" where
  "valid_index_of g l0 l1 = logical_and (not_isnan (get_layer g l0)) (not_isnan (get_layer g l1))"

definition node_locs :: "bgrid \<Rightarrow> error + (real array2 \<times> real array2)" where
  "node_locs g =
     (case resolutions g of
        [] \<Rightarrow> Inl IndexError
      | grid_rez # _ \<Rightarrow>
          bind_err (arange (grid_min_x g) (grid_max_x g) grid_rez) (\<lambda>xval.
          bind_err (arange (grid_min_y g) (grid_max_y g) grid_rez) (\<lambda>yval.
            Inr (meshgrid (map (\<lambda>v. v + grid_rez / 2) xval) (map (\<lambda>v. v + grid_rez / 2) yval)))))"

text \<open>
  The six columns of the local \<^verbatim>\<open>a_matrix\<close>, from the masked depth, node y, x slope and
  y slope, and the two columns of \<^verbatim>\<open>l_one_matrix\<close>.
\<close>

definition design_columns :: "npfloat list \<Rightarrow> npfloat list \<Rightarrow> npfloat list \<Rightarrow> npfloat list
    \<Rightarrow> npfloat list list" where
  "design_columns dpth_valid y_node_valid xslope_valid yslope_valid =
     [map2 fsub (map2 fmul yslope_valid dpth_valid) y_node_valid,
      map2 fmul xslope_valid dpth_valid,
      map2 fmul xslope_valid y_node_valid,
      xslope_valid,
      yslope_valid,
      map2 fmul yslope_valid y_node_valid]"

definition local_matrices :: "bgrid \<Rightarrow> string \<Rightarrow> string \<Rightarrow> bool array2 \<Rightarrow> error + (matrix \<times> matrix)" where
  "local_matrices g l0 l1 valid_index =
     bind_err (node_locs g) (\<lambda>(x_node_locs, y_node_locs).
     bind_err (mask_index (get_layer g ''depth'') valid_index) (\<lambda>dpth_valid.
     bind_err (mask_index (map (map Some) y_node_locs) valid_index) (\<lambda>y_node_valid.
     bind_err (mask_index (get_layer g ''x_slope'') valid_index) (\<lambda>xslope_valid.
     bind_err (mask_index (get_layer g ''y_slope'') valid_index) (\<lambda>yslope_valid.
     bind_err (mask_index (get_layer g l0) valid_index) (\<lambda>lineone_valid.
     bind_err (mask_index (get_layer g l1) valid_index) (\<lambda>linetwo_valid.
     bind_err (column_stack (design_columns dpth_valid y_node_valid xslope_valid yslope_valid)) (\<lambda>a_matrix.
     bind_err (column_stack [lineone_valid, linetwo_valid]) (\<lambda>l_one_matrix.
       Inr (a_matrix, l_one_matrix))))))))))"

definition no_overlap_message :: string where
  "no_overlap_message = ''No valid overlap found for lines: {}''"

definition build_patch_test_values :: "patch_test \<Rightarrow> error + patch_test" where
  "build_patch_test_values s =
     (case grid s of
        None \<Rightarrow> Inr s
      | Some g \<Rightarrow>
          (case multibeam_indexes s of
             None \<Rightarrow> Inl AttributeError
           | Some idx \<Rightarrow>
               (case map fst idx of
                  l0 # l1 # _ \<Rightarrow>
                    bind_err (valid_index_of g l0 l1) (\<lambda>valid_index.
                      if np_any2 valid_index
                      then bind_err (local_matrices g l0 l1 valid_index) (\<lambda>(a_mat, l_one_matrix).
                           bind_err (np_dot (np_T a_mat) a_mat) (\<lambda>ata.
                           bind_err (np_dot (np_T a_mat) l_one_matrix) (\<lambda>atl.
                             Inr (s\<lparr> a_matrix := Some ata, b_matrix := Some atl \<rparr>))))
                      else (case multibeam_files s of
                              None \<Rightarrow> Inl AttributeError
                            | Some files \<Rightarrow>
                                Inr (s\<lparr> stdout := stdout s @ [WithKeys no_overlap_message files] \<rparr>)))
                | _ \<Rightarrow> Inl IndexError)))"

subsection \<open>Solving and reporting\<close>

definition compute_least_squares :: "lstsq \<Rightarrow> patch_test \<Rightarrow> error + patch_test" where
  "compute_least_squares L s =
     (case a_matrix s of
        None \<Rightarrow> Inr s
      | Some a \<Rightarrow>
          (case b_matrix s of
             None \<Rightarrow> Inr s
           | Some b \<Rightarrow>
               bind_err (L a b) (\<lambda>(x, residuals, rank, singular). Inr (s\<lparr> result := Some x \<rparr>))))"

definition run_patch :: "gridder \<Rightarrow> lstsq \<Rightarrow> patch_test \<Rightarrow> error + patch_test" where
  "run_patch G L s =
     bind_err (generate_rotated_points s) (\<lambda>s1.
     bind_err (grid_points G s1) (\<lambda>s2.
     bind_err (build_patch_test_values s2) (\<lambda>s3.
       compute_least_squares L s3)))"

definition result_row :: "matrix \<Rightarrow> nat \<Rightarrow> error + npfloat list" where
  "result_row r k = (if k < length r then Inr (r ! k) else Inl IndexError)"

definition header_line :: out_line where
  "header_line = Plain ''Patch test results''"

definition display_results :: "patch_test \<Rightarrow> error + patch_test" where
  "display_results s =
     (let s0 = s\<lparr> stdout := stdout s @ [header_line] \<rparr>
      in case fqpr s of
           None \<Rightarrow> Inr s0
         | Some fq \<Rightarrow>
             (case result s of
                None \<Rightarrow> Inr s0
              | Some r \<Rightarrow>
                  bind_err (result_row r 0) (\<lambda>r0.
                  bind_err (result_row r 1) (\<lambda>r1.
                  bind_err (result_row r 2) (\<lambda>r2.
                  bind_err (result_row r 3) (\<lambda>r3.
                  bind_err (result_row r 4) (\<lambda>r4.
                  bind_err (result_row r 5) (\<lambda>r5.
                    Inr (s0\<lparr> stdout := stdout s0 @
                           [WithKeys ''Lines: {}'' (raw_ping_multibeam_files fq),
                            WithRow ''roll: {}'' r0,
                            WithRow ''pitch: {}'' r1,
                            WithRow ''heading: {}'' r2,
                            WithRow ''x_translation: {}'' r3,
                            WithRow ''y_translation: {}'' r4,
                            WithRow ''horizontal scale factor: {}'' r5] \<rparr>)))))))))"

section \<open>Vocabulary of the properties\<close>

text \<open>The keys the specification lists as recognized in an initial-parameters mapping.\<close>

definition recognized_keys :: "string list" where
  "recognized_keys = [''roll'', ''roll_unc'', ''pitch'', ''pitch_unc'', ''heading'', ''heading_unc'',
                      ''x_unc'', ''y_unc'', ''h_scale_unc'']"











section \<open>Concrete inputs\<close>

definition kv0 :: kluster_variables where
  "kv0 = \<lparr> default_roll_error = 1, default_pitch_error = 1, default_heading_error = 1,
           default_x_offset_error = 1, default_y_offset_error = 1 \<rparr>"

definition ip_without_heading_unc :: "(string \<times> real) list" where
  "ip_without_heading_unc =
     [(''roll'', 0), (''roll_unc'', 1), (''pitch'', 0), (''pitch_unc'', 1), (''heading'', 0),
      (''x_unc'', 1), (''y_unc'', 1), (''h_scale_unc'', 1)]"

text \<open>Two lines; the first returns one sounding at easting zero, the second none.\<close>

definition fq_zero_x :: fqpr where
  "fq_zero_x = \<lparr> raw_ping_multibeam_files = [''line1'', ''line2''],
                 subset_variables_by_line = (\<lambda>l. if l = ''line1'' then [(0, 1, 2)] else []) \<rparr>"

definition s_zero_x :: patch_test where
  "s_zero_x = fresh (Some fq_zero_x) (Some 0) []"

definition s_no_data :: patch_test where
  "s_no_data = s_zero_x
     \<lparr> multibeam_files := Some [''line1'', ''line2''],
       multibeam_indexes := Some [(''line1'', 0, 1), (''line2'', 1, 1)],
       stdout := [WithKeys no_points_message [''line1'', ''line2'']] \<rparr>"

text \<open>Two lines with two soundings and one sounding.\<close>

definition fq_two :: fqpr where
  "fq_two = \<lparr> raw_ping_multibeam_files = [''line1'', ''line2''],
              subset_variables_by_line =
                (\<lambda>l. if l = ''line1'' then [(1, 2, 3), (4, 5, 6)] else [(7, 8, 9)]) \<rparr>"

definition s_two :: patch_test where
  "s_two = fresh (Some fq_two) (Some 90) []"





text \<open>The object after the points of \<open>fq_two\<close> were collected, and after a grid was built.\<close>

definition s_collected :: patch_test where
  "s_collected = s_two
     \<lparr> multibeam_files := Some [''line1'', ''line2''],
       multibeam_indexes := Some [(''line1'', 0, 2), (''line2'', 2, 3)],
       points := Some [(1, 2, 3), (4, 5, 6), (7, 8, 9)],
       min_x := Some 1, min_y := Some 2 \<rparr>"

definition gridded :: "bgrid \<Rightarrow> patch_test" where
  "gridded g = s_collected \<lparr> grid := Some g \<rparr>"


text \<open>A grid of one row on which the two lines never meet.\<close>

definition grid_apart :: bgrid where
  "grid_apart = \<lparr> grid_min_x = 0, grid_max_x = 2, grid_min_y = 0, grid_max_y = 1,
                  resolutions = [1],
                  get_layer = (\<lambda>n. if n = ''line1'' then [[Some 1, None]]
                                    else if n = ''line2'' then [[None, Some 2]]
                                    else [[Some 1, Some 2]]) \<rparr>"

definition s_apart :: patch_test where
  "s_apart = (gridded grid_apart) \<lparr> stdout := [WithKeys no_overlap_message [''line1'', ''line2'']] \<rparr>"

text \<open>A singular system of one equation, and what least squares returns for it: rank 0.\<close>

definition s_singular :: patch_test where
  "s_singular = (fresh (Some fq_two) (Some 90) []) \<lparr> a_matrix := Some [[Some 0]], b_matrix := Some [[Some 0]] \<rparr>"

definition lstsq_singular :: lstsq where
  "lstsq_singular a b = Inr ([[Some 0]], [], 0, [Some 0])"

definition gridder_apart :: gridder where
  "gridder_apart lines = Inr grid_apart"

section \<open>Basic facts\<close>

lemma bind_err_Inr [simp]: "bind_err (Inr v) f = f v"
  by (simp add: bind_err_def)

lemma bind_err_Inl [simp]: "bind_err (Inl e) f = Inl e"
  by (simp add: bind_err_def)


section \<open>Construction\<close>

lemma default_parameter_keys: "map fst (default_parameters kv) = recognized_keys"
  by (simp add: default_parameters_def recognized_keys_def)

text \<open>
  Claim C9. Construction without a mapping succeeds. Construction with a mapping succeeds
  when the mapping has every recognized key, and otherwise raises the ValueError whose
  list is the recognized keys that the mapping lacks, in their fixed order and no others.
\<close>

theorem init_missing_keys:
  "init kv fq az None = Inr (fresh fq az (default_parameters kv)) \<and>
   init kv fq az (Some ip) =
     (if set recognized_keys \<subseteq> fst ` set ip then Inr (fresh fq az ip)
      else Inl (ValueError missing_message (filter (\<lambda>k. k \<notin> fst ` set ip) recognized_keys))) \<and>
   set (filter (\<lambda>k. k \<notin> fst ` set ip) recognized_keys) = set recognized_keys - fst ` set ip"
proof -
  have m: "missing_keys kv ip = filter (\<lambda>k. k \<notin> fst ` set ip) recognized_keys"
    by (simp add: missing_keys_def default_parameter_keys)
  have e: "(filter (\<lambda>k. k \<notin> fst ` set ip) recognized_keys = []) = (set recognized_keys \<subseteq> fst ` set ip)"
    by (auto simp: filter_empty_conv)
  show ?thesis
    by (simp add: init_def m e) auto
qed

theorem init_missing_keys_witness:
  "init kv0 None (Some 0) (Some ip_without_heading_unc) = Inl (ValueError missing_message [''heading_unc''])
   \<and> init kv0 None (Some 0) (Some (default_parameters kv0)) = Inr (fresh None (Some 0) (default_parameters kv0))"
  using init_missing_keys [of kv0 None "Some 0" ip_without_heading_unc]
        init_missing_keys [of kv0 None "Some 0" "default_parameters kv0"]
  by (simp add: recognized_keys_def ip_without_heading_unc_def default_parameters_def)

section \<open>Point collection\<close>

lemma collect_two_lines:
  assumes "l1 \<noteq> l2"
  shows "collect_lines fq [l1, l2] \<lparr> final = None, indexes = [], curr_point_index = 0 \<rparr> =
         \<lparr> final = Some (map fst (subset_variables_by_line fq l1 @ subset_variables_by_line fq l2),
                         map (\<lambda>p. fst (snd p)) (subset_variables_by_line fq l1 @ subset_variables_by_line fq l2),
                         map (\<lambda>p. snd (snd p)) (subset_variables_by_line fq l1 @ subset_variables_by_line fq l2)),
           indexes = [(l1, 0, length (subset_variables_by_line fq l1)),
                      (l2, length (subset_variables_by_line fq l1),
                           length (subset_variables_by_line fq l1) + length (subset_variables_by_line fq l2))],
           curr_point_index = length (subset_variables_by_line fq l2) \<rparr>"
  using assms by (simp add: Let_def dict_set_def)

lemma zip_columns: "zip (map fst d) (zip (map (\<lambda>p. fst (snd p)) d) (map (\<lambda>p. snd (snd p)) d)) = d"
  by (induction d) auto

lemma np_min_Min: "xs \<noteq> [] \<Longrightarrow> np_min xs = Inr (Min (set xs))"
proof -
  have "foldl min v vs = Min (set (v # vs))" for v :: real and vs
  proof (induction vs arbitrary: v)
    case Nil
    then show ?case by simp
  next
    case (Cons a vs)
    have "foldl min v (a # vs) = foldl min (min v a) vs" by simp
    also have "\<dots> = Min (set (min v a # vs))" by (rule Cons.IH)
    also have "\<dots> = Min (set (v # a # vs))"
      by (cases "vs = []") (simp_all add: min.assoc)
    finally show ?case .
  qed
  then show "xs \<noteq> [] \<Longrightarrow> np_min xs = Inr (Min (set xs))"
    by (cases xs) (simp_all add: np_min_def)
qed

text \<open>
  What \<^verbatim>\<open>_generate_rotated_points\<close> does on a pair of lines: when some collected easting
  is not zero, every point is rotated by the azimuth less 90 degrees about the least x and
  the least y of the whole buffer, and z is kept; otherwise the no-points message is printed
  and no points are stored.
\<close>

lemma generate_two_lines:
  assumes "l1 \<noteq> l2" and "fqpr s = Some fq" and "azimuth s = Some az"
    and "raw_ping_multibeam_files fq = [l1, l2]"
    and "buf = subset_variables_by_line fq l1 @ subset_variables_by_line fq l2"
    and "idx = [(l1, 0, length (subset_variables_by_line fq l1)),
                (l2, length (subset_variables_by_line fq l1),
                     length (subset_variables_by_line fq l1) + length (subset_variables_by_line fq l2))]"
  shows "generate_rotated_points s =
     (if \<exists>p \<in> set buf. fst p \<noteq> 0
      then Inr (s\<lparr> multibeam_files := Some [l1, l2], multibeam_indexes := Some idx,
                  points := Some (rotate_points (cos (deg2rad (az - 90))) (sin (deg2rad (az - 90)))
                                    (Min (fst ` set buf)) (Min ((\<lambda>p. fst (snd p)) ` set buf)) buf),
                  min_x := Some (Min (fst ` set buf)),
                  min_y := Some (Min ((\<lambda>p. fst (snd p)) ` set buf)) \<rparr>)
      else Inr (s\<lparr> multibeam_files := Some [l1, l2], multibeam_indexes := Some idx,
                  stdout := stdout s @ [WithKeys no_points_message [l1, l2]] \<rparr>))"
proof -
  have any: "np_any (map fst buf) = (\<exists>p \<in> set buf. fst p \<noteq> 0)"
    by (simp add: np_any_def list_ex_iff)
  have c: "collect_lines fq [l1, l2] \<lparr> final = None, indexes = [], curr_point_index = 0 \<rparr> =
         \<lparr> final = Some (map fst buf, map (\<lambda>p. fst (snd p)) buf, map (\<lambda>p. snd (snd p)) buf),
           indexes = idx, curr_point_index = length (subset_variables_by_line fq l2) \<rparr>"
    unfolding assms(5) assms(6) by (rule collect_two_lines [OF assms(1)])
  show ?thesis
  proof (cases "\<exists>p \<in> set buf. fst p \<noteq> 0")
    case True
    then have ne: "buf \<noteq> []" by auto
    have mx: "np_min (map fst buf) = Inr (Min (fst ` set buf))"
      using np_min_Min [of "map fst buf"] ne by simp
    have my: "np_min (map (\<lambda>p. fst (snd p)) buf) = Inr (Min ((\<lambda>p. fst (snd p)) ` set buf))"
      using np_min_Min [of "map (\<lambda>p. fst (snd p)) buf"] ne by simp
    show ?thesis
      using True
      by (simp add: generate_rotated_points_def Let_def c any mx my zip_columns assms(2,3,4)
               del: collect_lines.simps)
  next
    case False
    show ?thesis
      using False
      by (simp add: generate_rotated_points_def Let_def c any assms(2,3,4)
               del: collect_lines.simps)
  qed
qed

lemma rotate_points_length: "length (rotate_points cs sn mx my pts) = length pts"
  by (simp add: rotate_points_def)

text \<open>
  Claim C3. On a run over two lines of \<open>n1\<close> and \<open>n2\<close> points, the recorded ranges are
  \<open>[0, n1)\<close> and \<open>[n1, n1 + n2)\<close>: the second starts where the first ends, the buffer has
  \<open>n1 + n2\<close> entries, and slicing the buffer by the two ranges gives back each line's points.
\<close>

theorem two_line_index_ranges:
  assumes "l1 \<noteq> l2" and "fqpr s = Some fq" and "azimuth s = Some az"
    and "raw_ping_multibeam_files fq = [l1, l2]"
    and "d1 = subset_variables_by_line fq l1" and "d2 = subset_variables_by_line fq l2"
    and "n1 = length d1" and "n2 = length d2"
  shows "\<exists>s'. generate_rotated_points s = Inr s'
            \<and> multibeam_indexes s' = Some [(l1, 0, n1), (l2, n1, n1 + n2)]
            \<and> final (collect_lines fq [l1, l2] \<lparr> final = None, indexes = [], curr_point_index = 0 \<rparr>)
                = Some (map fst (d1 @ d2), map (\<lambda>p. fst (snd p)) (d1 @ d2), map (\<lambda>p. snd (snd p)) (d1 @ d2))
            \<and> length (d1 @ d2) = n1 + n2
            \<and> py_slice (d1 @ d2) 0 n1 = d1 \<and> py_slice (d1 @ d2) n1 (n1 + n2) = d2
            \<and> (points s' = points s \<or> (\<exists>pts. points s' = Some pts \<and> length pts = n1 + n2))"
proof -
  let ?idx = "[(l1, 0, n1), (l2, n1, n1 + n2)]"
  have g: "generate_rotated_points s =
     (if \<exists>p \<in> set (d1 @ d2). fst p \<noteq> 0
      then Inr (s\<lparr> multibeam_files := Some [l1, l2], multibeam_indexes := Some ?idx,
                  points := Some (rotate_points (cos (deg2rad (az - 90))) (sin (deg2rad (az - 90)))
                                    (Min (fst ` set (d1 @ d2))) (Min ((\<lambda>p. fst (snd p)) ` set (d1 @ d2))) (d1 @ d2)),
                  min_x := Some (Min (fst ` set (d1 @ d2))),
                  min_y := Some (Min ((\<lambda>p. fst (snd p)) ` set (d1 @ d2))) \<rparr>)
      else Inr (s\<lparr> multibeam_files := Some [l1, l2], multibeam_indexes := Some ?idx,
                  stdout := stdout s @ [WithKeys no_points_message [l1, l2]] \<rparr>))"
    by (rule generate_two_lines [OF assms(1-4)]) (simp_all add: assms(5-8))
  have f: "final (collect_lines fq [l1, l2] \<lparr> final = None, indexes = [], curr_point_index = 0 \<rparr>)
           = Some (map fst (d1 @ d2), map (\<lambda>p. fst (snd p)) (d1 @ d2), map (\<lambda>p. snd (snd p)) (d1 @ d2))"
    unfolding collect_two_lines [OF assms(1)] by (simp add: assms(5,6))
  have sl: "py_slice (d1 @ d2) 0 n1 = d1 \<and> py_slice (d1 @ d2) n1 (n1 + n2) = d2"
    by (simp add: py_slice_def assms(7,8))
  show ?thesis
  proof (cases "\<exists>p \<in> set (d1 @ d2). fst p \<noteq> 0")
    case True
    then show ?thesis
      unfolding g using f sl by (simp add: rotate_points_length assms(7,8))
  next
    case False
    then show ?thesis
      unfolding g using f sl by (simp add: assms(7,8))
  qed
qed

theorem two_line_index_ranges_witness:
  "\<exists>s'. generate_rotated_points s_two = Inr s'
        \<and> multibeam_indexes s' = Some [(''line1'', 0, 2), (''line2'', 2, 3)]
        \<and> py_slice (subset_variables_by_line fq_two ''line1'' @ subset_variables_by_line fq_two ''line2'') 0 2
            = subset_variables_by_line fq_two ''line1''
        \<and> py_slice (subset_variables_by_line fq_two ''line1'' @ subset_variables_by_line fq_two ''line2'') 2 3
            = subset_variables_by_line fq_two ''line2''"
proof -
  have n1: "length (subset_variables_by_line fq_two ''line1'') = 2"
    and n2: "length (subset_variables_by_line fq_two ''line2'') = 1"
    by (simp_all add: fq_two_def)
  have "''line1'' \<noteq> ''line2''" by simp
  moreover have "fqpr s_two = Some fq_two" and "azimuth s_two = Some 90"
    by (simp_all add: s_two_def fresh_def)
  moreover have "raw_ping_multibeam_files fq_two = [''line1'', ''line2'']"
    by (simp add: fq_two_def)
  ultimately show ?thesis
    using two_line_index_ranges [of "''line1''" "''line2''" s_two fq_two 90
        "subset_variables_by_line fq_two ''line1''" "subset_variables_by_line fq_two ''line2''" 2 1]
    by (simp add: n1 n2) blast
qed

section \<open>The no-points test\<close>

text \<open>
  Claim C2. The rotation is the one \<open>generate_two_lines\<close> states whenever some collected
  easting is not zero. The test that guards it, \<^verbatim>\<open>finalx.any()\<close>, asks for an easting
  that is not zero rather than for a buffer that is not empty: for the buffer holding the
  single sounding (0, 1, 2) nothing is rotated and no points are stored.
\<close>

theorem rotation_skipped_for_zero_eastings:
  "generate_rotated_points s_zero_x = Inr s_no_data \<and> points s_no_data = None \<and> min_x s_no_data = None"
  by (simp add: generate_rotated_points_def s_no_data_def s_zero_x_def fresh_def fq_zero_x_def Let_def
        dict_set_def np_any_def)

text \<open>
  Claim C4. With zero points for both lines the run ends early without an exception. The
  same happens, by the same test, when line one returns the sounding (0, 1, 2): the
  no-points message is printed, no grid is built and the result stays \<open>None\<close>, although a
  point was returned.
\<close>

theorem no_data_diagnostic_despite_a_point:
  "subset_variables_by_line fq_zero_x ''line1'' = [(0, 1, 2)]
   \<and> run_patch G L s_zero_x = Inr s_no_data
   \<and> stdout s_no_data = [WithKeys no_points_message [''line1'', ''line2'']]
   \<and> grid s_no_data = None \<and> result s_no_data = None"
  by (simp add: run_patch_def generate_rotated_points_def s_no_data_def s_zero_x_def fresh_def fq_zero_x_def
        Let_def dict_set_def np_any_def grid_points_def build_patch_test_values_def
        compute_least_squares_def)

section \<open>Guards of the stages\<close>

lemma generate_keeps_downstream:
  assumes "generate_rotated_points s = Inr s1"
  shows "grid s1 = grid s \<and> a_matrix s1 = a_matrix s \<and> b_matrix s1 = b_matrix s \<and> result s1 = result s"
  using assms
  by (auto simp: generate_rotated_points_def Let_def bind_err_def
           split: option.splits if_splits sum.splits prod.splits)

lemma grid_points_keeps_downstream:
  assumes "grid_points G s1 = Inr s2"
  shows "a_matrix s2 = a_matrix s1 \<and> b_matrix s2 = b_matrix s1 \<and> result s2 = result s1"
  using assms
  by (auto simp: grid_points_def bind_err_def split: option.splits if_splits sum.splits)

lemma build_keeps_result:
  assumes "build_patch_test_values s2 = Inr s3"
  shows "result s3 = result s2 \<and> grid s3 = grid s2"
  using assms
  by (auto simp: build_patch_test_values_def bind_err_def
           split: option.splits if_splits sum.splits list.splits prod.splits)

lemma grid_points_guard:
  "points s = None \<or> points s = Some [] \<Longrightarrow> grid_points G s = Inr s"
  by (auto simp: grid_points_def)

lemma build_guard: "grid s = None \<Longrightarrow> build_patch_test_values s = Inr s"
  by (simp add: build_patch_test_values_def)

lemma compute_guard:
  "a_matrix s = None \<or> b_matrix s = None \<Longrightarrow> compute_least_squares L s = Inr s"
  by (auto simp: compute_least_squares_def split: option.splits)

text \<open>
  When the test finds no easting other than zero on a first run over two lines, which
  includes the case of no points at all, the run prints the no-points message with the
  names of the lines and returns, with no points, no grid, no matrices and no result.
\<close>

lemma run_patch_without_nonzero_easting:
  assumes "l1 \<noteq> l2" and "fqpr s = Some fq" and "azimuth s = Some az"
    and "raw_ping_multibeam_files fq = [l1, l2]"
    and "list_all (\<lambda>p. fst p = 0) (subset_variables_by_line fq l1 @ subset_variables_by_line fq l2)"
    and "points s = None" and "grid s = None" and "a_matrix s = None"
  shows "run_patch G L s =
     Inr (s\<lparr> multibeam_files := Some [l1, l2],
             multibeam_indexes := Some [(l1, 0, length (subset_variables_by_line fq l1)),
                (l2, length (subset_variables_by_line fq l1),
                     length (subset_variables_by_line fq l1) + length (subset_variables_by_line fq l2))],
             stdout := stdout s @ [WithKeys no_points_message [l1, l2]] \<rparr>)"
proof -
  have "\<not> (\<exists>p \<in> set (subset_variables_by_line fq l1 @ subset_variables_by_line fq l2). fst p \<noteq> 0)"
    using assms(5) by (simp add: list_all_iff)
  then have g: "generate_rotated_points s =
     Inr (s\<lparr> multibeam_files := Some [l1, l2],
             multibeam_indexes := Some [(l1, 0, length (subset_variables_by_line fq l1)),
                (l2, length (subset_variables_by_line fq l1),
                     length (subset_variables_by_line fq l1) + length (subset_variables_by_line fq l2))],
             stdout := stdout s @ [WithKeys no_points_message [l1, l2]] \<rparr>)"
    using generate_two_lines [OF assms(1-4) refl refl] by simp
  show ?thesis
    unfolding run_patch_def g
    by (simp add: grid_points_guard build_guard compute_guard assms(6-8))
qed

text \<open>
  When some easting is not zero, the rotated points are stored and handed to the gridding
  engine, line by line, sliced by the recorded ranges.
\<close>

lemma run_patch_reaches_gridder:
  assumes "l1 \<noteq> l2" and "fqpr s = Some fq" and "azimuth s = Some az"
    and "raw_ping_multibeam_files fq = [l1, l2]"
    and "\<exists>p \<in> set (subset_variables_by_line fq l1 @ subset_variables_by_line fq l2). fst p \<noteq> 0"
    and "n1 = length (subset_variables_by_line fq l1)" and "n2 = length (subset_variables_by_line fq l2)"
  shows "\<exists>s1 pts. generate_rotated_points s = Inr s1 \<and> points s1 = Some pts \<and> length pts = n1 + n2
           \<and> grid_points G s1 =
               bind_err (G [(l1, py_slice pts 0 n1), (l2, py_slice pts n1 (n1 + n2))])
                 (\<lambda>g. Inr (s1\<lparr> grid := Some g \<rparr>))"
proof -
  let ?buf = "subset_variables_by_line fq l1 @ subset_variables_by_line fq l2"
  let ?pts = "rotate_points (cos (deg2rad (az - 90))) (sin (deg2rad (az - 90)))
                (Min (fst ` set ?buf)) (Min ((\<lambda>p. fst (snd p)) ` set ?buf)) ?buf"
  let ?s1 = "s\<lparr> multibeam_files := Some [l1, l2],
                 multibeam_indexes := Some [(l1, 0, n1), (l2, n1, n1 + n2)],
                 points := Some ?pts,
                 min_x := Some (Min (fst ` set ?buf)),
                 min_y := Some (Min ((\<lambda>p. fst (snd p)) ` set ?buf)) \<rparr>"
  have g: "generate_rotated_points s = Inr ?s1"
    using generate_two_lines [OF assms(1-4) refl refl] assms(5) by (simp add: assms(6,7))
  have len: "length ?pts = n1 + n2"
    by (simp add: rotate_points_length assms(6,7))
  have ne: "0 < length ?pts"
    using assms(5) by (auto simp: rotate_points_length)
  have "grid_points G ?s1 =
          bind_err (G [(l1, py_slice ?pts 0 n1), (l2, py_slice ?pts n1 (n1 + n2))])
            (\<lambda>g. Inr (?s1\<lparr> grid := Some g \<rparr>))"
    using ne by (simp add: grid_points_def)
  with g len show ?thesis
    by (intro exI [of _ ?s1] exI [of _ ?pts]) simp
qed

text \<open>
  Claim C10. On an object whose grid, matrices and result are \<open>None\<close>, as construction
  leaves them: \<^verbatim>\<open>_grid\<close> does nothing without points, \<^verbatim>\<open>_build_patch_test_values\<close>
  nothing without a grid, \<^verbatim>\<open>_compute_least_squares\<close> nothing without both matrices.
  When point collection stores no points, the run returns the object as collection left
  it, with grid, matrices and result still \<open>None\<close>; when the matrix stage returns without a
  matrix, the run returns with the result still \<open>None\<close>.
\<close>

theorem stages_guarded:
  assumes "grid s = None" and "a_matrix s = None" and "b_matrix s = None" and "result s = None"
  shows "((points s = None \<or> points s = Some []) \<longrightarrow> grid_points G s = Inr s)
       \<and> build_patch_test_values s = Inr s
       \<and> compute_least_squares L s = Inr s
       \<and> (generate_rotated_points s = Inr s1 \<and> points s1 = None \<longrightarrow>
            run_patch G L s = Inr s1 \<and> grid s1 = None \<and> a_matrix s1 = None
            \<and> b_matrix s1 = None \<and> result s1 = None)
       \<and> (generate_rotated_points s = Inr s1 \<and> grid_points G s1 = Inr s2
            \<and> build_patch_test_values s2 = Inr s3 \<and> (a_matrix s3 = None \<or> b_matrix s3 = None) \<longrightarrow>
            run_patch G L s = Inr s3 \<and> result s3 = None)"
proof (intro conjI impI)
  show "grid_points G s = Inr s" if "points s = None \<or> points s = Some []"
    using that by (rule grid_points_guard)
  show "build_patch_test_values s = Inr s"
    using assms(1) by (rule build_guard)
  show "compute_least_squares L s = Inr s"
    using assms(2) by (simp add: compute_guard)
next
  assume h: "generate_rotated_points s = Inr s1 \<and> points s1 = None"
  then have k: "grid s1 = None \<and> a_matrix s1 = None \<and> b_matrix s1 = None \<and> result s1 = None"
    using generate_keeps_downstream [of s s1] assms by simp
  then show "grid s1 = None" "a_matrix s1 = None" "b_matrix s1 = None" "result s1 = None"
    by simp_all
  show "run_patch G L s = Inr s1"
    using h k by (simp add: run_patch_def grid_points_guard build_guard compute_guard)
next
  assume h: "generate_rotated_points s = Inr s1 \<and> grid_points G s1 = Inr s2
            \<and> build_patch_test_values s2 = Inr s3 \<and> (a_matrix s3 = None \<or> b_matrix s3 = None)"
  show "run_patch G L s = Inr s3"
    using h by (simp add: run_patch_def compute_guard)
  show "result s3 = None"
    using h generate_keeps_downstream [of s s1] grid_points_keeps_downstream [of G s1 s2]
      build_keeps_result [of s2 s3] assms(4)
    by simp
qed

lemma generate_s_two: "generate_rotated_points s_two = Inr s_collected"
  by (simp add: generate_rotated_points_def s_collected_def s_two_def fresh_def fq_two_def Let_def
        dict_set_def np_any_def np_min_def deg2rad_def rotate_points_def)

lemma grid_points_s_collected: "grid_points gridder_apart s_collected = Inr (gridded grid_apart)"
  by (simp add: grid_points_def gridded_def s_collected_def gridder_apart_def)

lemma valid_index_apart: "valid_index_of grid_apart ''line1'' ''line2'' = Inr [[False, False]]"
  by (simp add: valid_index_of_def logical_and_def not_isnan_def isnan_def shape2_def grid_apart_def)

lemma build_apart: "build_patch_test_values (gridded grid_apart) = Inr s_apart"
  by (simp add: build_patch_test_values_def valid_index_apart np_any2_def s_apart_def gridded_def
        s_collected_def s_two_def fresh_def)

theorem stages_guarded_witness:
  "grid_points gridder_apart s_zero_x = Inr s_zero_x
   \<and> run_patch gridder_apart lstsq_singular s_zero_x = Inr s_no_data
   \<and> grid s_no_data = None \<and> a_matrix s_no_data = None \<and> b_matrix s_no_data = None
   \<and> result s_no_data = None
   \<and> run_patch gridder_apart lstsq_singular s_two = Inr s_apart
   \<and> a_matrix s_apart = None \<and> result s_apart = None"
proof -
  have z: "grid s_zero_x = None" "a_matrix s_zero_x = None" "b_matrix s_zero_x = None"
    "result s_zero_x = None" "points s_zero_x = None"
    by (simp_all add: s_zero_x_def fresh_def)
  have g: "generate_rotated_points s_zero_x = Inr s_no_data"
    by (simp add: generate_rotated_points_def s_no_data_def s_zero_x_def fresh_def fq_zero_x_def Let_def
          dict_set_def np_any_def)
  have p: "points s_no_data = None"
    by (simp add: s_no_data_def s_zero_x_def fresh_def)
  have t: "grid s_two = None" "a_matrix s_two = None" "b_matrix s_two = None" "result s_two = None"
    by (simp_all add: s_two_def fresh_def)
  have a: "a_matrix s_apart = None"
    by (simp add: s_apart_def gridded_def s_collected_def s_two_def fresh_def)
  show ?thesis
    using stages_guarded [OF z(1-4), of gridder_apart lstsq_singular s_no_data s_no_data s_no_data]
      stages_guarded [OF t, of gridder_apart lstsq_singular s_collected "gridded grid_apart" s_apart]
    by (simp add: z g p a generate_s_two grid_points_s_collected build_apart)
qed

section \<open>No overlap\<close>

text \<open>
  Claim C5. When a grid was built and no cell has both lines' depths, the matrix stage
  prints the no-overlap message with the names of the lines and changes nothing else, and
  the solver stage, finding no matrices, does nothing: no exception, and the result is as
  it was (\<open>None\<close> on a first run).
\<close>

theorem no_overlap_halts:
  assumes "grid s = Some g" and "multibeam_indexes s = Some idx" and "map fst idx = l0 # l1 # more_lines"
    and "multibeam_files s = Some files"
    and "valid_index_of g l0 l1 = Inr valid_index" and "\<not> np_any2 valid_index"
    and "a_matrix s = None \<or> b_matrix s = None"
  shows "bind_err (build_patch_test_values s) (compute_least_squares L) =
         Inr (s\<lparr> stdout := stdout s @ [WithKeys no_overlap_message files] \<rparr>)"
proof -
  have b: "build_patch_test_values s = Inr (s\<lparr> stdout := stdout s @ [WithKeys no_overlap_message files] \<rparr>)"
    using assms(1-6) by (simp add: build_patch_test_values_def)
  show ?thesis
    unfolding b using assms(7) by (simp add: compute_guard)
qed

theorem no_overlap_halts_witness:
  "bind_err (build_patch_test_values (gridded grid_apart)) (compute_least_squares lstsq_singular) = Inr s_apart
   \<and> stdout s_apart = [WithKeys no_overlap_message [''line1'', ''line2'']]
   \<and> result s_apart = None"
  using no_overlap_halts [of "gridded grid_apart" grid_apart "[(''line1'', 0, 2), (''line2'', 2, 3)]"
      "''line1''" "''line2''" "[]" "[''line1'', ''line2'']" "[[False, False]]" lstsq_singular]
  by (simp add: valid_index_apart np_any2_def s_apart_def gridded_def s_collected_def s_two_def fresh_def)

section \<open>Solving\<close>

text \<open>
  Claim C6, as the code has it. The solver stage stores the solution that least squares
  returns, whatever the rank, and prints nothing: the rank is received and dropped.
\<close>

theorem least_squares_discards_rank:
  assumes "a_matrix s = Some a" and "b_matrix s = Some b"
    and "L a b = Inr (x, residuals, rank, singular)"
  shows "compute_least_squares L s = Inr (s\<lparr> result := Some x \<rparr>)
         \<and> stdout (s\<lparr> result := Some x \<rparr>) = stdout s"
  using assms by (simp add: compute_least_squares_def)

theorem least_squares_discards_rank_witness:
  "compute_least_squares lstsq_singular s_singular = Inr (s_singular\<lparr> result := Some [[Some 0]] \<rparr>)
   \<and> stdout (s_singular\<lparr> result := Some [[Some 0]] \<rparr>) = stdout s_singular"
  using least_squares_discards_rank [of s_singular "[[Some 0]]" "[[Some 0]]" lstsq_singular
      "[[Some 0]]" "[]" 0 "[Some 0]"]
  by (simp add: s_singular_def lstsq_singular_def)

text \<open>
  The claim as the specification states it fails: on the singular system of one equation,
  of rank 0, the stage stores a solution and the printed output stays empty.
\<close>

theorem rank_not_reported:
  "lstsq_singular [[Some 0]] [[Some 0]] = Inr ([[Some 0]], [], 0, [Some 0])
   \<and> compute_least_squares lstsq_singular s_singular = Inr (s_singular\<lparr> result := Some [[Some 0]] \<rparr>)
   \<and> stdout (s_singular\<lparr> result := Some [[Some 0]] \<rparr>) = []"
  by (simp add: compute_least_squares_def s_singular_def lstsq_singular_def fresh_def)

section \<open>Reporting\<close>

text \<open>
  Claim C7, as the code has it. With no result, the reporter raises nothing and prints the
  heading alone: no parameter rows and no line saying that there is no result. Nothing else
  of the object changes.
\<close>

theorem display_results_without_result:
  assumes "result s = None"
  shows "display_results s = Inr (s\<lparr> stdout := stdout s @ [header_line] \<rparr>)"
  using assms by (cases "fqpr s") (simp_all add: display_results_def Let_def)

theorem display_results_without_result_witness:
  "result s_no_data = None
   \<and> display_results s_no_data =
       Inr (s_no_data\<lparr> stdout := [WithKeys no_points_message [''line1'', ''line2''], header_line] \<rparr>)"
  using display_results_without_result [of s_no_data]
  by (simp add: s_no_data_def s_zero_x_def fresh_def)

text \<open>
  The claim as the specification states it fails: before any run, the reporter's whole
  output is the heading ``Patch test results'', the line it prints first in every state.
\<close>

theorem no_result_not_reported:
  "display_results s_two = Inr (s_two\<lparr> stdout := [Plain ''Patch test results''] \<rparr>)"
  by (simp add: display_results_def s_two_def fresh_def header_line_def)

section \<open>Arrays, masks and column stacking\<close>















section \<open>Node centres\<close>







section \<open>Design and observation matrices\<close>






end
